theory Spec2Isabelle
  imports
    Complex_Main
    "HOL-Library.Option_ord"
    "HOL-Library.Char_ord"
    "HOL-Library.List_Lexorder"
    "HOL-Library.Multiset"
begin

section \<open>The NBA draft challenge: CSV loader, players table and its queries\<close>

text \<open>
  The program \<^verbatim>\<open>nba.py\<close> reads a CSV text, turns every row into a \<^verbatim>\<open>Player\<close>
  namedtuple, stores the tuples in the SQLite table \<^verbatim>\<open>players\<close> and answers six
  fixed SQL queries.  Python's \<^verbatim>\<open>str\<close> is a \<open>string\<close> (characters below 256 are
  their own code points), Python's \<^verbatim>\<open>None\<close> and SQL's NULL are \<open>None\<close>.
  Python floats and SQLite REAL values are modelled by the real numbers they stand for:
  the rounding of floating-point arithmetic is not part of the model.
\<close>

subsection \<open>Errors\<close>

datatype error =
    KeyError string
  | ZeroDivisionError
  | OperationalError string

subsection \<open>\<^verbatim>\<open>content.splitlines()\<close>\<close>

text \<open>
  \<^verbatim>\<open>str.splitlines\<close> cuts the text at every line boundary: LF, CR, CR LF (one boundary),
  VT, FF, FS, GS, RS and NEL.  The boundaries are dropped, and a text that ends in a
  boundary has no empty last line.  (The boundaries U+2028 and U+2029 are beyond the
  characters of \<open>string\<close>.)
\<close>

definition is_linebreak :: "char \<Rightarrow> bool" where
  "is_linebreak c \<longleftrightarrow>
     c \<in> set [CHR 0x0A, CHR 0x0B, CHR 0x0C, CHR 0x0D, CHR 0x1C, CHR 0x1D, CHR 0x1E, CHR 0x85]"

fun splitlines_from :: "bool \<Rightarrow> string \<Rightarrow> string \<Rightarrow> string list" where
  "splitlines_from after_cr cur [] = (if cur = [] then [] else [cur])"
| "splitlines_from after_cr cur (c # cs) =
     (if after_cr \<and> c = CHR 0x0A then splitlines_from False cur cs
      else if is_linebreak c then cur # splitlines_from (c = CHR 0x0D) [] cs
      else splitlines_from False (cur @ [c]) cs)"

definition splitlines :: "string \<Rightarrow> string list" where
  "splitlines content = splitlines_from False [] content"

subsection \<open>\<^verbatim>\<open>csv.reader\<close> with the default dialect and delimiter \<^verbatim>\<open>,\<close>\<close>

text \<open>
  The reader is the state machine of the \<^verbatim>\<open>csv\<close> module for the excel dialect
  (delimiter \<^verbatim>\<open>,\<close>, quote character \<^verbatim>\<open>"\<close>, doubled quotes, no escape character, not
  strict).  It is fed the lines one by one; after the characters of a line it is fed the
  end of the line (\<open>None\<close>).  The lines come from \<open>splitlines\<close> and hold no CR or LF
  (\<open>splitlines_no_CR_LF\<close> below), so the reader's transitions for these two characters
  are left out, as is its limit on the size of a field (131072 characters).
\<close>

datatype parse_state =
    START_RECORD
  | START_FIELD
  | IN_FIELD
  | IN_QUOTED_FIELD
  | QUOTE_IN_QUOTED_FIELD

record parser =
  state :: parse_state
  row_fields :: "string list"
  field_buf :: string

definition parse_reset :: parser where
  "parse_reset = \<lparr>state = START_RECORD, row_fields = [], field_buf = []\<rparr>"

definition parse_save_field :: "parser \<Rightarrow> parser" where
  "parse_save_field p = p\<lparr>row_fields := row_fields p @ [field_buf p], field_buf := []\<rparr>"

definition parse_add_char :: "parser \<Rightarrow> char \<Rightarrow> parser" where
  "parse_add_char p c = p\<lparr>field_buf := field_buf p @ [c]\<rparr>"

fun parse_process_char :: "parser \<Rightarrow> char option \<Rightarrow> parser" where
  "parse_process_char p c =
     (case state p of
        START_RECORD \<Rightarrow>
          (case c of
             None \<Rightarrow> p
           | Some x \<Rightarrow>
               if x = CHR ''\"'' then p\<lparr>state := IN_QUOTED_FIELD\<rparr>
               else if x = CHR '','' then (parse_save_field p)\<lparr>state := START_FIELD\<rparr>
               else (parse_add_char p x)\<lparr>state := IN_FIELD\<rparr>)
      | START_FIELD \<Rightarrow>
          (case c of
             None \<Rightarrow> (parse_save_field p)\<lparr>state := START_RECORD\<rparr>
           | Some x \<Rightarrow>
               if x = CHR ''\"'' then p\<lparr>state := IN_QUOTED_FIELD\<rparr>
               else if x = CHR '','' then parse_save_field p
               else (parse_add_char p x)\<lparr>state := IN_FIELD\<rparr>)
      | IN_FIELD \<Rightarrow>
          (case c of
             None \<Rightarrow> (parse_save_field p)\<lparr>state := START_RECORD\<rparr>
           | Some x \<Rightarrow>
               if x = CHR '','' then (parse_save_field p)\<lparr>state := START_FIELD\<rparr>
               else parse_add_char p x)
      | IN_QUOTED_FIELD \<Rightarrow>
          (case c of
             None \<Rightarrow> p
           | Some x \<Rightarrow>
               if x = CHR ''\"'' then p\<lparr>state := QUOTE_IN_QUOTED_FIELD\<rparr>
               else parse_add_char p x)
      | QUOTE_IN_QUOTED_FIELD \<Rightarrow>
          (case c of
             None \<Rightarrow> (parse_save_field p)\<lparr>state := START_RECORD\<rparr>
           | Some x \<Rightarrow>
               if x = CHR ''\"'' then (parse_add_char p x)\<lparr>state := IN_QUOTED_FIELD\<rparr>
               else if x = CHR '','' then (parse_save_field p)\<lparr>state := START_FIELD\<rparr>
               else (parse_add_char p x)\<lparr>state := IN_FIELD\<rparr>))"

definition parse_line :: "parser \<Rightarrow> string \<Rightarrow> parser" where
  "parse_line p l = parse_process_char (foldl (\<lambda>q x. parse_process_char q (Some x)) p l) None"

text \<open>
  One call of the reader's \<^verbatim>\<open>__next__\<close> resets the parser and feeds lines until the
  parser is back at the start of a record; the fields read are the row.  When the lines run
  out inside a quoted field, what has been read so far is the last row.
\<close>

fun reader_rows :: "parser \<Rightarrow> string list \<Rightarrow> string list list" where
  "reader_rows p [] =
     (if field_buf p \<noteq> [] \<or> state p = IN_QUOTED_FIELD
      then [row_fields (parse_save_field p)] else [])"
| "reader_rows p (l # ls) =
     (let p' = parse_line p l
      in if state p' = START_RECORD then row_fields p' # reader_rows parse_reset ls
         else reader_rows p' ls)"

definition reader :: "string list \<Rightarrow> string list list" where
  "reader ls = reader_rows parse_reset ls"

subsection \<open>\<^verbatim>\<open>csv.DictReader\<close>\<close>

text \<open>
  The first row of the reader is the list of field names.  Every later row that is not
  \<open>[]\<close> (a blank line) becomes a dictionary: the field names zipped with the row, a
  later duplicate of a name winning, and the names for which the row has no field
  mapped to \<^verbatim>\<open>None\<close> (the \<^verbatim>\<open>restval\<close>).  Fields beyond the field names go under the
  key \<^verbatim>\<open>None\<close>, which \<^verbatim>\<open>load_data\<close> never reads; they are left out.  In a
  dictionary \<open>d\<close>, \<open>d k = None\<close> says that \<open>k\<close> is no key, \<open>d k = Some None\<close> that the
  value is \<^verbatim>\<open>None\<close>.
\<close>

type_synonym pystr = "string option"

type_synonym csv_dict = "string \<Rightarrow> pystr option"

definition dict_row :: "string list \<Rightarrow> string list \<Rightarrow> csv_dict" where
  "dict_row fieldnames row =
     (let d = fold (\<lambda>(k, v) m. m(k \<mapsto> Some v)) (zip fieldnames row) Map.empty
      in fold (\<lambda>k m. m(k \<mapsto> None)) (drop (length row) fieldnames) d)"

definition DictReader :: "string list \<Rightarrow> csv_dict list" where
  "DictReader ls =
     (case reader ls of
        [] \<Rightarrow> []
      | fieldnames # rows \<Rightarrow> map (dict_row fieldnames) (filter (\<lambda>row. row \<noteq> []) rows))"

subsection \<open>\<^verbatim>\<open>Player\<close> and \<^verbatim>\<open>load_data\<close>\<close>

text \<open>
  The namedtuple \<^verbatim>\<open>Player\<close> and a row of the table \<^verbatim>\<open>players\<close> have the same nine
  fields.  The record is polymorphic in the types of the text, integer and real columns:
  a tuple from \<^verbatim>\<open>load_data\<close> holds CSV fields (a \<^verbatim>\<open>str\<close> or \<^verbatim>\<open>None\<close>) everywhere, a
  stored row holds a value of the column's declared type or NULL.
\<close>

record ('t, 'i, 'r) Player =
  name :: 't
  year :: 'i
  first_year :: 'i
  team :: 't
  college :: 't
  active :: 'i
  games :: 'i
  avg_min :: 'r
  avg_points :: 'r

type_synonym player = "(pystr, pystr, pystr) Player"

type_synonym row = "(string option, int option, real option) Player"

definition getitem :: "csv_dict \<Rightarrow> string \<Rightarrow> error + pystr" where
  "getitem d k = (case d k of None \<Rightarrow> Inl (KeyError k) | Some v \<Rightarrow> Inr v)"

definition bind_result :: "error + 'a \<Rightarrow> ('a \<Rightarrow> error + 'b) \<Rightarrow> error + 'b" where
  "bind_result r f = (case r of Inl e \<Rightarrow> Inl e | Inr v \<Rightarrow> f v)"

definition make_player :: "csv_dict \<Rightarrow> error + player" where
  "make_player d =
     bind_result (getitem d ''Player'') (\<lambda>v1.
     bind_result (getitem d ''Draft_Yr'') (\<lambda>v2.
     bind_result (getitem d ''first_year'') (\<lambda>v3.
     bind_result (getitem d ''Team'') (\<lambda>v4.
     bind_result (getitem d ''College'') (\<lambda>v5.
     bind_result (getitem d ''Yrs'') (\<lambda>v6.
     bind_result (getitem d ''Games'') (\<lambda>v7.
     bind_result (getitem d ''Minutes.per.Game'') (\<lambda>v8.
     bind_result (getitem d ''Points.per.Game'') (\<lambda>v9.
       Inr \<lparr>name = v1, year = v2, first_year = v3, team = v4, college = v5,
            active = v6, games = v7, avg_min = v8, avg_points = v9\<rparr>)))))))))"

text \<open>
  \<^verbatim>\<open>load_data\<close> is a generator: it yields one \<^verbatim>\<open>Player\<close> per dictionary, in order,
  and stops at the first dictionary whose lookup raises.  Its value here is the list of
  the tuples yielded and the exception that ended it, if one did.  The text returned by
  \<^verbatim>\<open>_get_csv_data\<close> (the cache file or the download) is the argument \<open>content\<close>.
\<close>

fun yield_players :: "csv_dict list \<Rightarrow> player list \<times> error option" where
  "yield_players [] = ([], None)"
| "yield_players (d # ds) =
     (case make_player d of
        Inl e \<Rightarrow> ([], Some e)
      | Inr p \<Rightarrow> (case yield_players ds of (ps, e) \<Rightarrow> (p # ps, e)))"

definition load_data :: "string \<Rightarrow> player list \<times> error option" where
  "load_data content = yield_players (DictReader (splitlines content))"

subsection \<open>The database\<close>

text \<open>
  The module removes the database file when it starts, so the connection begins without
  a table.  The state is the table \<^verbatim>\<open>players\<close> as the connection sees it (\<open>None\<close>
  while it does not exist, otherwise its rows in insertion order, which is the order in
  which SQLite scans a table without index) and the number of calls of
  \<^verbatim>\<open>conn.commit()\<close>.

  A stored row is typed by the \<^verbatim>\<open>CREATE TABLE\<close> statement: text, integer and real
  columns, each nullable.  Turning a bound CSV field into the integer or the real of its
  column is the work of SQLite's column affinity, which is no code of this repository;
  it is the parameter \<open>engine\<close>.  (SQLite keeps a field that is no number as text; the
  typed rows have no place for such a cell.)
\<close>

record db =
  players :: "row list option"
  commits :: nat

definition initial_db :: db where
  "initial_db = \<lparr>players = None, commits = 0\<rparr>"

record engine =
  to_integer :: "string \<Rightarrow> int option"
  to_real :: "string \<Rightarrow> real option"

definition store_player :: "engine \<Rightarrow> player \<Rightarrow> row" where
  "store_player eng p =
     \<lparr>name = name p,
      year = Option.bind (year p) (to_integer eng),
      first_year = Option.bind (first_year p) (to_integer eng),
      team = team p,
      college = college p,
      active = Option.bind (active p) (to_integer eng),
      games = Option.bind (games p) (to_integer eng),
      avg_min = Option.bind (avg_min p) (to_real eng),
      avg_points = Option.bind (avg_points p) (to_real eng)\<rparr>"

definition rows_of :: "db \<Rightarrow> row list" where
  "rows_of d = (case players d of None \<Rightarrow> [] | Some t \<Rightarrow> t)"

definition create_players_table :: "db \<Rightarrow> db" where
  "create_players_table d = d\<lparr>players := Some (rows_of d)\<rparr>"

text \<open>
  \<^verbatim>\<open>import_to_db(players=None)\<close>: the table is created if it is missing; only when the
  argument is \<^verbatim>\<open>None\<close> are the tuples of \<^verbatim>\<open>load_data()\<close> inserted and the
  transaction committed.  An exception of the generator ends \<^verbatim>\<open>executemany\<close> after
  the rows yielded before it, without commit.
\<close>

definition import_to_db :: "engine \<Rightarrow> string \<Rightarrow> 'a option \<Rightarrow> db \<Rightarrow> (error + unit) \<times> db" where
  "import_to_db eng content players_arg d =
     (let d1 = create_players_table d
      in case players_arg of
           Some _ \<Rightarrow> (Inr (), d1)
         | None \<Rightarrow>
             (case load_data content of (ps, exc) \<Rightarrow>
                (let d2 = d1\<lparr>players := Some (rows_of d1 @ map (store_player eng) ps)\<rparr>
                 in case exc of
                      Some e \<Rightarrow> (Inl e, d2)
                    | None \<Rightarrow> (Inr (), d2\<lparr>commits := commits d2 + 1\<rparr>))))"

subsection \<open>SQL operators used by the queries\<close>

definition no_such_table :: error where
  "no_such_table = OperationalError ''no such table: players''"

text \<open>\<^verbatim>\<open>COUNT(col)\<close> counts the rows in which the column is not NULL.\<close>

definition count_col :: "('r \<Rightarrow> 'v option) \<Rightarrow> 'r list \<Rightarrow> nat" where
  "count_col col rs = length (filter (\<lambda>r. col r \<noteq> None) rs)"

text \<open>
  \<^verbatim>\<open>LIKE\<close>: \<^verbatim>\<open>%\<close> matches any run of characters, \<^verbatim>\<open>_\<close> one character, and any other
  character matches itself, upper and lower case being the same for the ASCII letters.
  Both operands are compared as text, an integer in its decimal notation.  NULL matches
  nothing.
\<close>

definition lower_ascii :: "char \<Rightarrow> char" where
  "lower_ascii c =
     (case map_of (zip ''ABCDEFGHIJKLMNOPQRSTUVWXYZ'' ''abcdefghijklmnopqrstuvwxyz'') c of
        None \<Rightarrow> c
      | Some l \<Rightarrow> l)"

fun like_match :: "string \<Rightarrow> string \<Rightarrow> bool" where
  "like_match [] [] = True"
| "like_match [] (c # cs) = False"
| "like_match (p # ps) [] = (p = CHR ''%'' \<and> like_match ps [])"
| "like_match (p # ps) (c # cs) =
     (if p = CHR ''%'' then like_match ps (c # cs) \<or> like_match (p # ps) cs
      else (p = CHR ''_'' \<or> lower_ascii p = lower_ascii c) \<and> like_match ps cs)"

definition digit_char :: "nat \<Rightarrow> char" where
  "digit_char n = ''0123456789'' ! n"

function decimal :: "nat \<Rightarrow> string" where
  "decimal n = (if n < 10 then [digit_char n] else decimal (n div 10) @ [digit_char (n mod 10)])"
  by pat_completeness auto
termination
  by (relation "measure id") auto

declare decimal.simps [simp del]

definition text_of_int :: "int \<Rightarrow> string" where
  "text_of_int i = (if i < 0 then CHR ''-'' # decimal (nat (- i)) else decimal (nat i))"

definition like_text :: "string option \<Rightarrow> string \<Rightarrow> bool" where
  "like_text v pat = (case v of None \<Rightarrow> False | Some s \<Rightarrow> like_match pat s)"

definition like_int :: "int option \<Rightarrow> int \<Rightarrow> bool" where
  "like_int v pat = (case v of None \<Rightarrow> False | Some i \<Rightarrow> like_match (text_of_int pat) (text_of_int i))"

text \<open>
  \<^verbatim>\<open>SELECT bare, MAX(key) FROM rows\<close>: SQLite runs over the rows keeping the best key
  so far.  The bare column is taken from the row that set the best key: a key that is
  strictly greater replaces it, an equal or smaller one does not.  A NULL key is skipped
  once a best key exists; before that, it leaves the best key unset but the bare column
  is still loaded from its row.  Without rows both results are NULL.
\<close>

fun minmax_step ::
  "('r \<Rightarrow> 'b option) \<Rightarrow> ('r \<Rightarrow> ('k::linorder) option) \<Rightarrow> 'k option \<times> 'b option \<Rightarrow> 'r
     \<Rightarrow> 'k option \<times> 'b option" where
  "minmax_step bare key (best, b) r =
     (case key r of
        None \<Rightarrow> (case best of None \<Rightarrow> (None, bare r) | Some _ \<Rightarrow> (best, b))
      | Some v \<Rightarrow>
          (case best of
             None \<Rightarrow> (Some v, bare r)
           | Some m \<Rightarrow> if m < v then (Some v, bare r) else (best, b)))"

definition select_bare_max ::
  "('r \<Rightarrow> 'b option) \<Rightarrow> ('r \<Rightarrow> ('k::linorder) option) \<Rightarrow> 'r list \<Rightarrow> 'b option \<times> 'k option" where
  "select_bare_max bare key rs =
     (case foldl (minmax_step bare key) (None, None) rs of (best, b) \<Rightarrow> (b, best))"


text \<open>
  \<^verbatim>\<open>games/active\<close> on integers is SQLite's integer division: it truncates towards
  zero, and it is NULL when an operand is NULL or the divisor is 0.
\<close>

definition sql_div :: "int option \<Rightarrow> int option \<Rightarrow> int option" where
  "sql_div a b =
     (case (a, b) of
        (Some x, Some y) \<Rightarrow> if y = 0 then None else Some (sgn x * sgn y * (\<bar>x\<bar> div \<bar>y\<bar>))
      | _ \<Rightarrow> None)"

text \<open>
  \<^verbatim>\<open>ORDER BY key DESC LIMIT n\<close>: SQLite completes the sort key by the sequence number
  of the row, so every row is put behind the rows whose key is not smaller, and rows
  with equal keys stay in scan order.  NULL is the smallest key.
\<close>

fun insert_desc :: "('r \<Rightarrow> 'k::linorder) \<Rightarrow> 'r \<Rightarrow> 'r list \<Rightarrow> 'r list" where
  "insert_desc key x [] = [x]"
| "insert_desc key x (y # ys) =
     (if key y < key x then x # y # ys else y # insert_desc key x ys)"

definition order_by_desc :: "('r \<Rightarrow> 'k::linorder) \<Rightarrow> 'r list \<Rightarrow> 'r list" where
  "order_by_desc key rs = foldl (\<lambda>acc r. insert_desc key r acc) [] rs"

definition sql_gt :: "int option \<Rightarrow> int \<Rightarrow> bool" where
  "sql_gt v n = (case v of None \<Rightarrow> False | Some x \<Rightarrow> x > n)"

text \<open>\<^verbatim>\<open>AVG(col)\<close> is the sum of the values that are not NULL over their number, NULL without any.\<close>

definition sql_avg :: "int option list \<Rightarrow> real option" where
  "sql_avg vs =
     (case [x. Some x \<leftarrow> vs] of
        [] \<Rightarrow> None
      | w # ws \<Rightarrow> Some (real_of_int (sum_list (w # ws)) / real (length (w # ws))))"

subsection \<open>The queries\<close>

text \<open>
  Every query runs \<^verbatim>\<open>cur.execute\<close> on a \<^verbatim>\<open>SELECT\<close>, which raises
  \<^verbatim>\<open>sqlite3.OperationalError\<close> when the table does not exist, and returns a value made
  from the rows fetched together with the database.
\<close>

definition total_records :: "(row \<Rightarrow> 'v option) \<Rightarrow> db \<Rightarrow> (error + nat) \<times> db" where
  "total_records column d =
     (case players d of
        None \<Rightarrow> (Inl no_such_table, d)
      | Some t \<Rightarrow> (Inr (count_col column t), d))"

definition player_with_max_points_per_game :: "db \<Rightarrow> (error + string option) \<times> db" where
  "player_with_max_points_per_game d =
     (case players d of
        None \<Rightarrow> (Inl no_such_table, d)
      | Some t \<Rightarrow> (Inr (fst (select_bare_max name avg_points t)), d))"

definition number_of_players_from_duke :: "db \<Rightarrow> (error + nat) \<times> db" where
  "number_of_players_from_duke d =
     (case players d of
        None \<Rightarrow> (Inl no_such_table, d)
      | Some t \<Rightarrow>
          (Inr (count_col name (filter (\<lambda>r. like_text (college r) ''Duke University'') t)), d))"

definition percentage_of_players_first_year :: "db \<Rightarrow> (error + real) \<times> db" where
  "percentage_of_players_first_year d =
     (case total_records first_year d of
        (Inl e, d1) \<Rightarrow> (Inl e, d1)
      | (Inr total_count, d1) \<Rightarrow>
          (case players d1 of
             None \<Rightarrow> (Inl no_such_table, d1)
           | Some t \<Rightarrow>
               (let first_year_players =
                      count_col first_year (filter (\<lambda>r. like_int (first_year r) 1) t)
                in if total_count = 0 then (Inl ZeroDivisionError, d1)
                   else (Inr ((real first_year_players / real total_count) * 100), d1))))"

definition avg_years_active_players_stanford :: "db \<Rightarrow> (error + real option) \<times> db" where
  "avg_years_active_players_stanford d =
     (case players d of
        None \<Rightarrow> (Inl no_such_table, d)
      | Some t \<Rightarrow>
          (Inr (sql_avg (map active
                  (filter (\<lambda>r. like_text (college r) ''Stanford University'') t))), d))"

text \<open>
  \<^verbatim>\<open>GROUP BY year\<close> sorts the rows by year, so the groups come in ascending order of
  the year, the group of the NULL years first; \<^verbatim>\<open>COUNT(year)\<close> is 0 for that group.
\<close>

definition group_by_year :: "row list \<Rightarrow> (int option \<times> nat) list" where
  "group_by_year t =
     map (\<lambda>y. (y, count_col year (filter (\<lambda>r. year r = y) t))) (sort (remdups (map year t)))"

definition year_with_most_drafts :: "db \<Rightarrow> (error + int option) \<times> db" where
  "year_with_most_drafts d =
     (case players d of
        None \<Rightarrow> (Inl no_such_table, d)
      | Some t \<Rightarrow>
          (Inr (fst (select_bare_max fst (\<lambda>g. Some (snd g)) (group_by_year t))), d))"

definition games_per_year :: "row \<Rightarrow> int option" where
  "games_per_year r = sql_div (games r) (active r)"

definition veterans :: "row list \<Rightarrow> row list" where
  "veterans t = filter (\<lambda>r. sql_gt (active r) 10) t"

definition most_games_per_year_for_veterans :: "db \<Rightarrow> (error + string option list) \<times> db" where
  "most_games_per_year_for_veterans d =
     (case players d of
        None \<Rightarrow> (Inl no_such_table, d)
      | Some t \<Rightarrow>
          (Inr (sort (map name (take 6 (order_by_desc games_per_year (veterans t))))), d))"

subsection \<open>Example tables\<close>

definition empty_db :: db where
  "empty_db = \<lparr>players = Some [], commits = 0\<rparr>"

definition duke_row :: row where
  "duke_row = \<lparr>name = Some ''A'', year = Some 1984, first_year = Some 0, team = Some ''CHI'',
     college = Some ''duke university'', active = Some 3, games = Some 100,
     avg_min = Some 10, avg_points = Some 5\<rparr>"

definition duke_db :: db where
  "duke_db = \<lparr>players = Some [duke_row], commits = 1\<rparr>"








subsection \<open>The veterans query as the specification words it\<close>






subsection \<open>CSV texts with a header row and data lines\<close>










section \<open>Properties\<close>

lemmas query_defs =
  player_with_max_points_per_game_def number_of_players_from_duke_def
  percentage_of_players_first_year_def avg_years_active_players_stanford_def
  year_with_most_drafts_def most_games_per_year_for_veterans_def total_records_def

subsection \<open>The queries only read\<close>

text \<open>
  Claim C10.  Each of the six query functions leaves the table \<^verbatim>\<open>players\<close> as it
  found it: whatever the state of the database, missing table included, the state after
  the call is the state before it.
\<close>

theorem queries_leave_table_unchanged:
  "snd (player_with_max_points_per_game d) = d \<and>
   snd (number_of_players_from_duke d) = d \<and>
   snd (percentage_of_players_first_year d) = d \<and>
   snd (avg_years_active_players_stanford d) = d \<and>
   snd (year_with_most_drafts d) = d \<and>
   snd (most_games_per_year_for_veterans d) = d"
  by (simp add: query_defs Let_def split: option.splits)

subsection \<open>\<^verbatim>\<open>import_to_db\<close> with an argument\<close>

text \<open>
  Claim C9.  Called with an argument that is not \<^verbatim>\<open>None\<close>, \<^verbatim>\<open>import_to_db\<close>
  creates the table if it is missing and does nothing else: the table exists
  afterwards, it has the rows it had before (none if it was missing), so their number is
  unchanged, and \<^verbatim>\<open>conn.commit()\<close> has not been called.
\<close>

theorem import_to_db_with_players_inserts_nothing:
  "import_to_db eng content (Some x) d = (Inr (), d\<lparr>players := Some (rows_of d)\<rparr>) \<and>
   players (snd (import_to_db eng content (Some x) d)) \<noteq> None \<and>
   length (rows_of (snd (import_to_db eng content (Some x) d))) = length (rows_of d) \<and>
   rows_of (snd (import_to_db eng content (Some x) d)) = rows_of d \<and>
   commits (snd (import_to_db eng content (Some x) d)) = commits d"
  by (simp add: import_to_db_def create_players_table_def rows_of_def Let_def)

subsection \<open>Queries on a missing or an empty table\<close>

text \<open>
  Claim C8 says that every query fails on an empty or missing table.  On the empty
  table the college count does not fail: it returns 0.
\<close>

theorem empty_table_query_counterexample:
  "fst (number_of_players_from_duke empty_db) = Inr 0"
  by (simp add: number_of_players_from_duke_def empty_db_def count_col_def)

lemma group_by_year_Nil: "group_by_year [] = []"
  by (simp add: group_by_year_def)

text \<open>
  Claim C8, amended.  On a missing table every query fails, with the
  \<^verbatim>\<open>OperationalError\<close> of SQLite.  On an empty table only the percentage fails, with
  \<^verbatim>\<open>ZeroDivisionError\<close>; the best scorer, the Stanford average and the year are
  \<^verbatim>\<open>None\<close>, the college count is 0 and the list of veterans is empty.
\<close>

theorem queries_on_missing_and_empty_table:
  "fst (player_with_max_points_per_game \<lparr>players = None, commits = n\<rparr>) = Inl no_such_table \<and>
   fst (number_of_players_from_duke \<lparr>players = None, commits = n\<rparr>) = Inl no_such_table \<and>
   fst (percentage_of_players_first_year \<lparr>players = None, commits = n\<rparr>) = Inl no_such_table \<and>
   fst (avg_years_active_players_stanford \<lparr>players = None, commits = n\<rparr>) = Inl no_such_table \<and>
   fst (year_with_most_drafts \<lparr>players = None, commits = n\<rparr>) = Inl no_such_table \<and>
   fst (most_games_per_year_for_veterans \<lparr>players = None, commits = n\<rparr>) = Inl no_such_table \<and>
   fst (player_with_max_points_per_game \<lparr>players = Some [], commits = n\<rparr>) = Inr None \<and>
   fst (number_of_players_from_duke \<lparr>players = Some [], commits = n\<rparr>) = Inr 0 \<and>
   fst (percentage_of_players_first_year \<lparr>players = Some [], commits = n\<rparr>) = Inl ZeroDivisionError \<and>
   fst (avg_years_active_players_stanford \<lparr>players = Some [], commits = n\<rparr>) = Inr None \<and>
   fst (year_with_most_drafts \<lparr>players = Some [], commits = n\<rparr>) = Inr None \<and>
   fst (most_games_per_year_for_veterans \<lparr>players = Some [], commits = n\<rparr>) = Inr []"
  by (simp add: query_defs count_col_def select_bare_max_def sql_avg_def group_by_year_Nil
      veterans_def order_by_desc_def)

subsection \<open>The college count\<close>

text \<open>
  Claim C4 asks for an exact, case-sensitive comparison of the college, as the
  docstring of \<^verbatim>\<open>number_of_players_from_duke\<close> does (\<^verbatim>\<open>college == Duke University\<close>).
  The query compares with \<^verbatim>\<open>LIKE\<close>: a table whose only row has the college
  \<^verbatim>\<open>duke university\<close> holds no row with the college \<^verbatim>\<open>Duke University\<close>, and the
  function returns 1.
\<close>

theorem number_of_players_from_duke_ignores_case:
  "fst (number_of_players_from_duke duke_db) = Inr 1 \<and>
   length (filter (\<lambda>r. college r = Some ''Duke University'') (rows_of duke_db)) = 0"
  by code_simp

subsection \<open>The percentage of first-year players\<close>










subsection \<open>The best scorer\<close>





subsection \<open>The year with the most drafts\<close>







subsection \<open>The veterans\<close>














subsection \<open>The loader\<close>

text \<open>The lines that \<open>splitlines\<close> returns hold no line boundary, so no CR and no LF.\<close>

lemma splitlines_from_no_linebreak:
  "\<forall>c \<in> set cur. \<not> is_linebreak c \<Longrightarrow> l \<in> set (splitlines_from after_cr cur cs) \<Longrightarrow>
   \<forall>c \<in> set l. \<not> is_linebreak c"
proof (induction cs arbitrary: after_cr cur)
  case Nil
  then show ?case by (auto split: if_splits)
next
  case (Cons c cs)
  show ?case
  proof (cases "after_cr \<and> c = CHR 0x0A")
    case True
    with Cons.prems(2) have "l \<in> set (splitlines_from False cur cs)" by simp
    with Cons.IH Cons.prems(1) show ?thesis by blast
  next
    case False
    show ?thesis
    proof (cases "is_linebreak c")
      case True
      with False Cons.prems(2) have "l = cur \<or> l \<in> set (splitlines_from (c = CHR 0x0D) [] cs)"
        by auto
      then show ?thesis
      proof
        assume "l = cur"
        with Cons.prems(1) show ?thesis by simp
      next
        assume "l \<in> set (splitlines_from (c = CHR 0x0D) [] cs)"
        moreover have "\<forall>x \<in> set []. \<not> is_linebreak x" by simp
        ultimately show ?thesis using Cons.IH by blast
      qed
    next
      case nb: False
      with False Cons.prems(2) have "l \<in> set (splitlines_from False (cur @ [c]) cs)"
        by auto
      moreover have "\<forall>x \<in> set (cur @ [c]). \<not> is_linebreak x"
        using Cons.prems(1) nb by auto
      ultimately show ?thesis
        using Cons.IH by blast
    qed
  qed
qed

lemma splitlines_no_linebreak:
  "l \<in> set (splitlines content) \<Longrightarrow> c \<in> set l \<Longrightarrow> \<not> is_linebreak c"
  using splitlines_from_no_linebreak [of "[]" l False content] by (auto simp: splitlines_def)

lemma splitlines_no_CR_LF:
  "l \<in> set (splitlines content) \<Longrightarrow> CHR 0x0A \<notin> set l \<and> CHR 0x0D \<notin> set l"
  using splitlines_no_linebreak [of l content] by (auto simp: is_linebreak_def)




















end
